theory Spec2Isabelle
  imports Complex_Main
begin

section \<open>Errors and results\<close>

text \<open>
  The program raises two kinds of exception: \<open>TypeError\<close>, by its own \<open>raise\<close> statements
  and by the interpreter (an operand that cannot be iterated or added), and \<open>IndexError\<close>,
  by the interpreter on a list index out of range. An exception is the left summand of
  the result; the message of a \<open>raise\<close> statement is kept, so that the errors of different
  guards stay apart.
\<close>

datatype error = TypeError string | IndexError string

definition bind_res :: "error + 'a \<Rightarrow> ('a \<Rightarrow> error + 'b) \<Rightarrow> error + 'b" where
  "bind_res r f = (case r of Inl e \<Rightarrow> Inl e | Inr x \<Rightarrow> f x)"

text \<open>A generator expression whose element may raise: the first exception ends it.\<close>

fun traverse :: "('a \<Rightarrow> error + 'b) \<Rightarrow> 'a list \<Rightarrow> error + 'b list" where
  "traverse f [] = Inr []"
| "traverse f (x # xs) =
     (case f x of
        Inl e \<Rightarrow> Inl e
      | Inr y \<Rightarrow> (case traverse f xs of Inl e \<Rightarrow> Inl e | Inr ys \<Rightarrow> Inr (y # ys)))"

text \<open>\<open>xs[i]\<close> for an index \<open>i \<ge> 0\<close>, as every index of the program is.\<close>

definition getitem :: "'a list \<Rightarrow> nat \<Rightarrow> error + 'a" where
  "getitem xs i = (if i < length xs then Inr (xs ! i) else Inl (IndexError ''list index out of range''))"

text \<open>\<open>range(n)\<close> for a Python integer: empty when \<open>n \<le> 0\<close>.\<close>

definition py_range :: "int \<Rightarrow> nat list" where
  "py_range n = [0..<nat n]"

text \<open>The built-in \<open>sum\<close>: it starts from the integer 0 and adds from the left.\<close>

definition py_sum :: "'a::{zero,plus} list \<Rightarrow> 'a" where
  "py_sum xs = foldl (+) 0 xs"

section \<open>Values\<close>

text \<open>
  Scalars are the elements of a type \<open>'a\<close> with the arithmetic operations: Python's
  unbounded integers at \<open>int\<close>, and its floats at \<open>real\<close> where only their finite values
  matter and at \<open>pyfloat\<close>, below, where the infinities and nan do (rounding is not
  modelled). \<open>Vector\<close> and \<open>Matrix\<close> are subclasses of \<open>list\<close> without fields
  of their own: a Vector is the list of its scalars, a Matrix the list of its columns,
  each column a Vector. The operand of a binary operation is any Python value; the
  classes that the \<open>isinstance\<close> tests of the program tell apart are the constructors.
\<close>

datatype 'a pyval =
    Number 'a
  | PyList "'a list"
  | Vector "'a list"
  | Matrix "'a list list"

text \<open>What iterating over a value yields: scalars, or the columns of a Matrix.\<close>

datatype 'a item = Num 'a | Vec "'a list"

definition iter :: "'a pyval \<Rightarrow> error + 'a item list" where
  "iter other =
     (case other of
        Number x \<Rightarrow> Inl (TypeError ''object is not iterable'')
      | PyList ys \<Rightarrow> Inr (map Num ys)
      | Vector ys \<Rightarrow> Inr (map Num ys)
      | Matrix cs \<Rightarrow> Inr (map Vec cs))"

text \<open>
  \<open>x1 + x2\<close>, \<open>x1 - x2\<close> and \<open>x1 * x2\<close> for a scalar \<open>x1\<close> and an item \<open>x2\<close>. A scalar and a
  Vector cannot be added or subtracted; their product is either refused (a float) or a
  repeated plain list (an integer), which \<open>sum\<close> then cannot add to its integer
  accumulator: a \<open>TypeError\<close> on both paths.
\<close>

definition unsupported :: error where
  "unsupported = TypeError ''unsupported operand type(s)''"

definition num_add :: "'a::plus \<Rightarrow> 'a item \<Rightarrow> error + 'a" where
  "num_add x1 x2 = (case x2 of Num y \<Rightarrow> Inr (x1 + y) | Vec c \<Rightarrow> Inl unsupported)"

definition num_sub :: "'a::minus \<Rightarrow> 'a item \<Rightarrow> error + 'a" where
  "num_sub x1 x2 = (case x2 of Num y \<Rightarrow> Inr (x1 - y) | Vec c \<Rightarrow> Inl unsupported)"

definition num_mul :: "'a::times \<Rightarrow> 'a item \<Rightarrow> error + 'a" where
  "num_mul x1 x2 = (case x2 of Num y \<Rightarrow> Inr (x1 * y) | Vec c \<Rightarrow> Inl unsupported)"

section \<open>Floats\<close>

text \<open>
  A Python float with the special values of IEEE 754. A finite float is a real number (no
  rounding, no overflow, one zero). The sum of the two infinities and the product of an
  infinity and zero are nan, and an operation on nan is nan. The integers 0 and 1 that
  \<open>identity\<close> and \<open>sum\<close> supply are the floats 0.0 and 1.0 as soon as they meet a float.
\<close>

datatype pyfloat = Finite real | PosInf | NegInf | NaN


instantiation pyfloat :: "{zero, one, plus, uminus, minus, times}"
begin

definition zero_pyfloat :: pyfloat where
  "zero_pyfloat = Finite 0"

definition one_pyfloat :: pyfloat where
  "one_pyfloat = Finite 1"

fun plus_pyfloat :: "pyfloat \<Rightarrow> pyfloat \<Rightarrow> pyfloat" where
  "plus_pyfloat (Finite a) (Finite b) = Finite (a + b)"
| "plus_pyfloat NaN y = NaN"
| "plus_pyfloat x NaN = NaN"
| "plus_pyfloat PosInf NegInf = NaN"
| "plus_pyfloat NegInf PosInf = NaN"
| "plus_pyfloat PosInf y = PosInf"
| "plus_pyfloat x PosInf = PosInf"
| "plus_pyfloat NegInf y = NegInf"
| "plus_pyfloat x NegInf = NegInf"

fun uminus_pyfloat :: "pyfloat \<Rightarrow> pyfloat" where
  "uminus_pyfloat (Finite a) = Finite (- a)"
| "uminus_pyfloat PosInf = NegInf"
| "uminus_pyfloat NegInf = PosInf"
| "uminus_pyfloat NaN = NaN"

definition minus_pyfloat :: "pyfloat \<Rightarrow> pyfloat \<Rightarrow> pyfloat" where
  "minus_pyfloat x y = x + (- y)"

fun times_pyfloat :: "pyfloat \<Rightarrow> pyfloat \<Rightarrow> pyfloat" where
  "times_pyfloat (Finite a) (Finite b) = Finite (a * b)"
| "times_pyfloat NaN y = NaN"
| "times_pyfloat x NaN = NaN"
| "times_pyfloat PosInf (Finite b) = (if b = 0 then NaN else if 0 < b then PosInf else NegInf)"
| "times_pyfloat NegInf (Finite b) = (if b = 0 then NaN else if 0 < b then NegInf else PosInf)"
| "times_pyfloat (Finite a) PosInf = (if a = 0 then NaN else if 0 < a then PosInf else NegInf)"
| "times_pyfloat (Finite a) NegInf = (if a = 0 then NaN else if 0 < a then NegInf else PosInf)"
| "times_pyfloat PosInf PosInf = PosInf"
| "times_pyfloat PosInf NegInf = NegInf"
| "times_pyfloat NegInf PosInf = NegInf"
| "times_pyfloat NegInf NegInf = PosInf"

instance ..

end

section \<open>Vector\<close>

text \<open>
  \<open>_ensure_compatibility\<close> returns the constant \<open>NotImplemented\<close> for an operand that is
  not a Vector, raises for a Vector of another length, and returns \<open>None\<close> otherwise.
\<close>

datatype returned = NotImplemented | NoneValue

definition different_length :: error where
  "different_length = TypeError ''Can not add vectors of different length''"

definition ensure_compatibility :: "'a list \<Rightarrow> 'a pyval \<Rightarrow> error + returned" where
  "ensure_compatibility self other =
     (case other of
        Vector ys \<Rightarrow> if length self \<noteq> length ys then Inl different_length else Inr NoneValue
      | _ \<Rightarrow> Inr NotImplemented)"

text \<open>
  \<open>__add__\<close>, \<open>__sub__\<close> and \<open>scalar_prod\<close> call the guard, drop what it returns, and walk
  \<open>zip(self, other)\<close>, which stops at the end of the shorter operand.
\<close>

definition add :: "'a::plus list \<Rightarrow> 'a pyval \<Rightarrow> error + 'a list" where
  "add self other =
     bind_res (ensure_compatibility self other) (\<lambda>_.
     bind_res (iter other) (\<lambda>items.
       traverse (\<lambda>(x1, x2). num_add x1 x2) (zip self items)))"

definition sub :: "'a::minus list \<Rightarrow> 'a pyval \<Rightarrow> error + 'a list" where
  "sub self other =
     bind_res (ensure_compatibility self other) (\<lambda>_.
     bind_res (iter other) (\<lambda>items.
       traverse (\<lambda>(x1, x2). num_sub x1 x2) (zip self items)))"

definition scalar_prod :: "'a::{zero,plus,times} list \<Rightarrow> 'a pyval \<Rightarrow> error + 'a" where
  "scalar_prod self other =
     bind_res (ensure_compatibility self other) (\<lambda>_.
     bind_res (iter other) (\<lambda>items.
     bind_res (traverse (\<lambda>(x1, x2). num_mul x1 x2) (zip self items)) (\<lambda>ps.
       Inr (py_sum ps))))"

section \<open>Matrix\<close>

definition cols :: "'a list list \<Rightarrow> nat" where
  "cols self = length self"

definition rows :: "'a list list \<Rightarrow> error + nat" where
  "rows self = bind_res (getitem self 0) (\<lambda>c. Inr (length c))"

definition not_matrix_or_vector :: error where
  "not_matrix_or_vector = TypeError ''other must be Matrix of Vector''"

definition not_multiplicable :: error where
  "not_multiplicable = TypeError
     ''Number of columns in left operand of multiplication must be equal to number of rows in right operand''"

definition ensure_multiplicable :: "'a list list \<Rightarrow> 'a pyval \<Rightarrow> error + unit" where
  "ensure_multiplicable self other =
     bind_res
       (case other of
          Matrix b \<Rightarrow> rows b
        | Vector v \<Rightarrow> Inr (length v)
        | _ \<Rightarrow> Inl not_matrix_or_vector)
       (\<lambda>sz. if cols self \<noteq> sz then Inl not_multiplicable else Inr ())"

text \<open>\<open>Vector(self[j][i] for j in range(self.cols))\<close>: row \<open>i\<close>, read across the columns.\<close>

definition row_vector :: "'a list list \<Rightarrow> nat \<Rightarrow> error + 'a list" where
  "row_vector self i =
     traverse (\<lambda>j. bind_res (getitem self j) (\<lambda>c. getitem c i)) [0..<cols self]"

text \<open>
  One column of a product: the scalar products of every row of \<open>self\<close> with \<open>v\<close>.
  \<open>self.rows\<close> is read when the generator starts.
\<close>

definition mul_column :: "'a::{zero,plus,times} list list \<Rightarrow> 'a list \<Rightarrow> error + 'a list" where
  "mul_column self v =
     bind_res (rows self) (\<lambda>r.
       traverse (\<lambda>i. bind_res (row_vector self i) (\<lambda>row. scalar_prod row (Vector v))) [0..<r])"

text \<open>The Matrix \<open>m\<close> that \<open>__mul__\<close> builds for a Matrix operand, before its last test.\<close>

definition mul_columns :: "'a::{zero,plus,times} list list \<Rightarrow> 'a list list \<Rightarrow> error + 'a list list" where
  "mul_columns self other =
     traverse (\<lambda>k. bind_res (getitem other k) (\<lambda>c. mul_column self c)) [0..<cols other]"

text \<open>
  \<open>__mul__\<close>. The guard has raised for every operand that is neither a Vector nor a
  Matrix, so the last branch of the case is never reached.
\<close>

definition mul :: "'a::{zero,plus,times} list list \<Rightarrow> 'a pyval \<Rightarrow> error + 'a pyval" where
  "mul self other =
     bind_res (ensure_multiplicable self other) (\<lambda>_.
       case other of
         Vector v \<Rightarrow> bind_res (mul_column self v) (\<lambda>xs. Inr (Vector xs))
       | Matrix b \<Rightarrow>
           bind_res (mul_columns self b) (\<lambda>m.
             if cols m = 1 then bind_res (getitem m 0) (\<lambda>c. Inr (Vector c)) else Inr (Matrix m))
       | _ \<Rightarrow> Inl not_matrix_or_vector)"

text \<open>\<open>__rmul__\<close>: \<open>Matrix(other for _ in range(1))\<close> is the Matrix whose only column is \<open>other\<close>.\<close>

definition rmul :: "'a::{zero,plus,times} list list \<Rightarrow> 'a pyval \<Rightarrow> error + 'a pyval" where
  "rmul self other =
     (case other of
        Vector v \<Rightarrow> mul (map (\<lambda>_. v) (py_range 1)) (Matrix self)
      | _ \<Rightarrow> Inl not_matrix_or_vector)"

definition identity :: "int \<Rightarrow> 'a::{zero,one} list list" where
  "identity n = map (\<lambda>i. map (\<lambda>j. if j = i then 1 else 0) (py_range n)) (py_range n)"

section \<open>The transform driver\<close>

text \<open>\<open>math.cos\<close> and \<open>math.sin\<close> are the real functions.\<close>

definition create_rotation_matrix :: "real \<Rightarrow> real list list" where
  "create_rotation_matrix angle = [[cos angle, sin angle], [- sin angle, cos angle]]"

text \<open>
  \<open>convert\<close>: \<open>m * v + dv\<close>. The product with a Vector is a Vector, whose \<open>__add__\<close> takes
  \<open>dv\<close>; the \<open>__add__\<close> of a Matrix would refuse a Vector operand.
\<close>

definition not_matrix :: error where
  "not_matrix = TypeError ''other must be Matrix''"

definition convert :: "'a::{zero,plus,times} list \<Rightarrow> 'a list list \<Rightarrow> 'a list \<Rightarrow> error + 'a list" where
  "convert v m dv =
     bind_res (mul m (Vector v)) (\<lambda>r.
       case r of Vector w \<Rightarrow> add w (Vector dv) | _ \<Rightarrow> Inl not_matrix)"


text \<open>
  The loops of \<open>main\<close>. A \<open>for\<close> loop over indices threads the state through its body
  and ends at the first exception. \<open>xs[i] = f(xs[i])\<close> reads the element, calls \<open>f\<close> and
  stores the result at the same index.
\<close>

fun for_each :: "(nat \<Rightarrow> 's \<Rightarrow> error + 's) \<Rightarrow> nat list \<Rightarrow> 's \<Rightarrow> error + 's" where
  "for_each body [] s = Inr s"
| "for_each body (i # is) s =
     (case body i s of Inl e \<Rightarrow> Inl e | Inr s' \<Rightarrow> for_each body is s')"

definition update_item :: "('p \<Rightarrow> error + 'p) \<Rightarrow> nat \<Rightarrow> 'p list \<Rightarrow> error + 'p list" where
  "update_item f i xs =
     bind_res (getitem xs i) (\<lambda>p.
     bind_res (f p) (\<lambda>q.
       if i < length xs then Inr (xs[i := q]) else Inl (IndexError ''list assignment index out of range'')))"

definition TOTAL_STEPS :: nat where
  "TOTAL_STEPS = 8"

text \<open>
  One pass of the outer loop of \<open>main\<close>, for its variable \<open>step\<close>, on the pair of the lists
  \<open>figure\<close> and \<open>dots\<close>; \<open>conv\<close> stands for \<open>convert(_, m, dv)\<close> with the \<open>m\<close> and \<open>dv\<close> of
  \<open>main\<close>. Drawing and printing are left out.
\<close>

definition main_step :: "('p \<Rightarrow> error + 'p) \<Rightarrow> nat \<Rightarrow> 'p list \<times> 'p list \<Rightarrow> error + 'p list \<times> 'p list" where
  "main_step conv step s =
     (case s of (figure, dots) \<Rightarrow>
        bind_res (for_each (update_item conv) [0..<length figure] figure) (\<lambda>figure'.
        bind_res (for_each (update_item conv) [step..<TOTAL_STEPS] dots) (\<lambda>dots'.
          Inr (figure', dots'))))"

definition main_loop :: "('p \<Rightarrow> error + 'p) \<Rightarrow> 'p list \<times> 'p list \<Rightarrow> error + 'p list \<times> 'p list" where
  "main_loop conv s = for_each (main_step conv) [1..<TOTAL_STEPS] s"


section \<open>Objects in a store\<close>

text \<open>
  Vectors and Matrices are mutable objects: \<open>__iadd__\<close> and \<open>__isub__\<close> write into the list
  they are called on, and two names may denote one object. Where that matters, an object
  is an address into a store. The store keeps the Vectors and the Matrices apart, the
  address of an object being its index, and a Matrix holds the addresses of its columns.
  Constructing a Vector appends it; nothing is ever removed. The addresses that a caller
  passes are those of objects of the store.
\<close>

record 'a store =
  vectors :: "'a list list"
  matrices :: "nat list list"

text \<open>
  A statement takes the store and returns a result or an exception, with the store it
  leaves. \<open>read\<close> is an expression that only looks at the store.
\<close>

definition bind_st :: "('s \<Rightarrow> (error + 'x) \<times> 's) \<Rightarrow> ('x \<Rightarrow> 's \<Rightarrow> (error + 'y) \<times> 's) \<Rightarrow> 's \<Rightarrow> (error + 'y) \<times> 's" where
  "bind_st act f s = (case act s of (Inl e, s') \<Rightarrow> (Inl e, s') | (Inr x, s') \<Rightarrow> f x s')"

definition read :: "('s \<Rightarrow> error + 'x) \<Rightarrow> 's \<Rightarrow> (error + 'x) \<times> 's" where
  "read f s = (f s, s)"

fun traverse_st :: "('x \<Rightarrow> 's \<Rightarrow> (error + 'y) \<times> 's) \<Rightarrow> 'x list \<Rightarrow> 's \<Rightarrow> (error + 'y list) \<times> 's" where
  "traverse_st f [] s = (Inr [], s)"
| "traverse_st f (x # xs) s =
     (case f x s of
        (Inl e, s') \<Rightarrow> (Inl e, s')
      | (Inr y, s') \<Rightarrow>
          (case traverse_st f xs s' of
             (Inl e, s'') \<Rightarrow> (Inl e, s'')
           | (Inr ys, s'') \<Rightarrow> (Inr (y # ys), s'')))"

text \<open>\<open>Vector(xs)\<close>: a new object, at an address not in use.\<close>

definition new_Vector :: "'a list \<Rightarrow> 'a store \<Rightarrow> (error + nat) \<times> 'a store" where
  "new_Vector xs s = (Inr (length (vectors s)), s\<lparr>vectors := vectors s @ [xs]\<rparr>)"

text \<open>The columns of the Matrix at address \<open>m\<close>, read through its references.\<close>

definition columns :: "'a store \<Rightarrow> nat \<Rightarrow> 'a list list" where
  "columns s m = map (\<lambda>c. vectors s ! c) (matrices s ! m)"

text \<open>
  \<open>__add__\<close>, \<open>scalar_prod\<close> and \<open>__mul__\<close> on the addresses of Vectors (and of a Matrix, for
  \<open>self\<close> of \<open>__mul__\<close>): the values are those of the operations above, on what the store
  holds; the Vector that \<open>__add__\<close> returns, every row that \<open>__mul__\<close> assembles and the
  Vector that it returns are new objects.
\<close>

definition add_st :: "nat \<Rightarrow> nat \<Rightarrow> 'a::plus store \<Rightarrow> (error + nat) \<times> 'a store" where
  "add_st self other =
     bind_st (read (\<lambda>s. add (vectors s ! self) (Vector (vectors s ! other)))) new_Vector"

definition scalar_prod_st :: "nat \<Rightarrow> nat \<Rightarrow> 'a::{zero,plus,times} store \<Rightarrow> (error + 'a) \<times> 'a store" where
  "scalar_prod_st self other =
     read (\<lambda>s. scalar_prod (vectors s ! self) (Vector (vectors s ! other)))"

definition mul_st :: "nat \<Rightarrow> nat \<Rightarrow> 'a::{zero,plus,times} store \<Rightarrow> (error + nat) \<times> 'a store" where
  "mul_st self other =
     bind_st (read (\<lambda>s. ensure_multiplicable (columns s self) (Vector (vectors s ! other)))) (\<lambda>_.
     bind_st (read (\<lambda>s. rows (columns s self))) (\<lambda>r.
     bind_st (traverse_st (\<lambda>i.
         bind_st (read (\<lambda>s. row_vector (columns s self) i)) (\<lambda>row.
         bind_st (new_Vector row) (\<lambda>row_ref.
           scalar_prod_st row_ref other))) [0..<r])
       new_Vector))"

definition convert_st :: "nat \<Rightarrow> nat \<Rightarrow> nat \<Rightarrow> 'a::{zero,plus,times} store \<Rightarrow> (error + nat) \<times> 'a store" where
  "convert_st v m dv = bind_st (mul_st m v) (\<lambda>w. add_st w dv)"

text \<open>
  \<open>__iadd__\<close>, for comparison: \<open>self[i] += other[i]\<close> for every index, written into the
  object at \<open>self\<close>, which is returned.
\<close>

definition iadd_st :: "nat \<Rightarrow> nat \<Rightarrow> 'a::plus store \<Rightarrow> (error + nat) \<times> 'a store" where
  "iadd_st self other =
     bind_st (read (\<lambda>s. ensure_compatibility (vectors s ! self) (Vector (vectors s ! other)))) (\<lambda>_.
     bind_st (\<lambda>s. (Inr (),
         fold (\<lambda>i s. s\<lparr>vectors := (vectors s)[self := (vectors s ! self)[i := vectors s ! self ! i + vectors s ! other ! i]]\<rparr>)
           [0..<length (vectors s ! self)] s)) (\<lambda>_ s.
     (Inr self, s)))"

text \<open>
  Every object of the store \<open>s\<close> is in \<open>s'\<close>, at its address and with its contents.
\<close>

definition unchanged :: "'a store \<Rightarrow> 'a store \<Rightarrow> bool" where
  "unchanged s s' \<longleftrightarrow>
     matrices s' = matrices s \<and> take (length (vectors s)) (vectors s') = vectors s"

text \<open>
  A statement that returns the address of a new Vector holding the value \<open>pure\<close>, or
  raises as \<open>pure\<close> does, and changes no object.
\<close>

definition fresh_result :: "'a store \<Rightarrow> error + 'a list \<Rightarrow> (error + nat) \<times> 'a store \<Rightarrow> bool" where
  "fresh_result s pure out =
     (case out of (res, s') \<Rightarrow>
        unchanged s s' \<and>
        (case res of
           Inl e \<Rightarrow> pure = Inl e
         | Inr r \<Rightarrow> length (vectors s) \<le> r \<and> r < length (vectors s') \<and> pure = Inr (vectors s' ! r)))"

section \<open>What an operation of Vector does, in order\<close>

text \<open>
  \<open>__add__\<close>, \<open>__sub__\<close> and \<open>scalar_prod\<close> once more, on the addresses of two Vectors, now
  with a record of each thing they do to the objects: \<open>len\<close> of the object at an address,
  the read of one of its elements, and the construction of a new Vector.
\<close>

datatype event = Len nat | Get nat nat | New nat

definition len_ev :: "nat \<Rightarrow> 'a store \<times> event list \<Rightarrow> (error + nat) \<times> 'a store \<times> event list" where
  "len_ev r t = (case t of (s, tr) \<Rightarrow> (Inr (length (vectors s ! r)), (s, tr @ [Len r])))"

definition get_ev :: "nat \<Rightarrow> nat \<Rightarrow> 'a store \<times> event list \<Rightarrow> (error + 'a) \<times> 'a store \<times> event list" where
  "get_ev r i t = (case t of (s, tr) \<Rightarrow> (getitem (vectors s ! r) i, (s, tr @ [Get r i])))"

definition new_ev :: "'a list \<Rightarrow> 'a store \<times> event list \<Rightarrow> (error + nat) \<times> 'a store \<times> event list" where
  "new_ev xs t =
     (case t of (s, tr) \<Rightarrow>
        (Inr (length (vectors s)), (s\<lparr>vectors := vectors s @ [xs]\<rparr>, tr @ [New (length (vectors s))])))"

text \<open>The guard: \<open>len(self) != len(other)\<close>, then the \<open>raise\<close>.\<close>

definition ensure_compatibility_ev ::
    "nat \<Rightarrow> nat \<Rightarrow> 'a store \<times> event list \<Rightarrow> (error + returned) \<times> 'a store \<times> event list" where
  "ensure_compatibility_ev self other =
     bind_st (len_ev self) (\<lambda>n.
     bind_st (len_ev other) (\<lambda>k t.
       if n \<noteq> k then (Inl different_length, t) else (Inr NoneValue, t)))"

text \<open>
  \<open>zip(self, other)\<close>, walked to its end: at each index it takes the element of \<open>self\<close>,
  then that of \<open>other\<close>, and it stops at the first index that one of them does not have.
\<close>

fun zip_ev ::
    "nat \<Rightarrow> nat \<Rightarrow> nat list \<Rightarrow> 'a store \<times> event list \<Rightarrow> (error + ('a \<times> 'a) list) \<times> 'a store \<times> event list" where
  "zip_ev self other [] t = (Inr [], t)"
| "zip_ev self other (i # is) t =
     (case get_ev self i t of
        (Inl e, t') \<Rightarrow> (Inl e, t')
      | (Inr x1, t') \<Rightarrow>
          if i < length (vectors (fst t') ! other)
          then (case get_ev other i t' of
                  (Inl e, t'') \<Rightarrow> (Inl e, t'')
                | (Inr x2, t'') \<Rightarrow>
                    (case zip_ev self other is t'' of
                       (Inl e, t3) \<Rightarrow> (Inl e, t3)
                     | (Inr ps, t3) \<Rightarrow> (Inr ((x1, x2) # ps), t3)))
          else (Inr [], t'))"

definition add_ev :: "nat \<Rightarrow> nat \<Rightarrow> 'a::plus store \<times> event list \<Rightarrow> (error + nat) \<times> 'a store \<times> event list" where
  "add_ev self other =
     bind_st (ensure_compatibility_ev self other) (\<lambda>_.
     bind_st (\<lambda>t. zip_ev self other [0..<length (vectors (fst t) ! self)] t) (\<lambda>ps.
       new_ev (map (\<lambda>(x1, x2). x1 + x2) ps)))"

definition sub_ev :: "nat \<Rightarrow> nat \<Rightarrow> 'a::minus store \<times> event list \<Rightarrow> (error + nat) \<times> 'a store \<times> event list" where
  "sub_ev self other =
     bind_st (ensure_compatibility_ev self other) (\<lambda>_.
     bind_st (\<lambda>t. zip_ev self other [0..<length (vectors (fst t) ! self)] t) (\<lambda>ps.
       new_ev (map (\<lambda>(x1, x2). x1 - x2) ps)))"

definition scalar_prod_ev ::
    "nat \<Rightarrow> nat \<Rightarrow> 'a::{zero,plus,times} store \<times> event list \<Rightarrow> (error + 'a) \<times> 'a store \<times> event list" where
  "scalar_prod_ev self other =
     bind_st (ensure_compatibility_ev self other) (\<lambda>_.
     bind_st (\<lambda>t. zip_ev self other [0..<length (vectors (fst t) ! self)] t) (\<lambda>ps t.
       (Inr (py_sum (map (\<lambda>(x1, x2). x1 * x2) ps)), t)))"

section \<open>Basic facts\<close>

lemma bind_res_simps [simp]:
  "bind_res (Inl e) f = Inl e"
  "bind_res (Inr x) f = f x"
  by (simp_all add: bind_res_def)

lemma traverse_map:
  "(\<And>x. x \<in> set xs \<Longrightarrow> f x = Inr (g x)) \<Longrightarrow> traverse f xs = Inr (map g xs)"
  by (induction xs) simp_all


lemma foldl_plus_sum_list: "foldl (+) a xs = (a::'a::monoid_add) + sum_list xs"
  by (induction xs arbitrary: a) (simp_all add: add.assoc)

lemma py_sum_sum_list: "py_sum xs = sum_list (xs::'a::monoid_add list)"
  by (simp add: py_sum_def foldl_plus_sum_list)

subsection \<open>Vector operations on two Vectors\<close>

lemma traverse_zip_Num:
  "(\<And>x y. f x (Num y) = Inr (g x y)) \<Longrightarrow>
   traverse (\<lambda>(x1, x2). f x1 x2) (zip a (map Num b)) = Inr (map2 g a b)"
proof (induction a arbitrary: b)
  case Nil
  then show ?case by simp
next
  case (Cons x a)
  then show ?case by (cases b) simp_all
qed

lemma add_Vector:
  "length a = length b \<Longrightarrow> add a (Vector b) = Inr (map2 (+) a b)"
  by (simp add: add_def ensure_compatibility_def iter_def traverse_zip_Num num_add_def)

lemma sub_Vector:
  "length a = length b \<Longrightarrow> sub a (Vector b) = Inr (map2 (-) a b)"
  by (simp add: sub_def ensure_compatibility_def iter_def traverse_zip_Num num_sub_def)

lemma scalar_prod_Vector:
  "length a = length b \<Longrightarrow> scalar_prod a (Vector b) = Inr (py_sum (map2 (*) a b))"
  by (simp add: scalar_prod_def ensure_compatibility_def iter_def traverse_zip_Num num_mul_def)

lemma length_mismatch:
  "length a \<noteq> length b \<Longrightarrow> ensure_compatibility a (Vector b) = Inl different_length"
  by (simp add: ensure_compatibility_def)

section \<open>Vector: the claims\<close>

text \<open>
  C8. For Vectors \<open>a\<close> and \<open>b\<close> of equal size \<open>n\<close>, \<open>a + b\<close> returns a Vector of size \<open>n\<close>
  whose element \<open>i\<close> is \<open>a[i] + b[i]\<close>, for every \<open>i < n\<close>.
\<close>

theorem add_elementwise:
  assumes "length a = n" and "length b = n"
  shows "\<exists>c. add a (Vector b) = Inr c \<and> length c = n \<and> (\<forall>i<n. c ! i = a ! i + b ! i)"
  using assms by (simp add: add_Vector)

theorem add_elementwise_witness:
  "\<exists>c. add [1, 2, 3 :: int] (Vector [10, 20, 30]) = Inr c \<and> length c = 3
     \<and> (\<forall>i<3. c ! i = [1, 2, 3] ! i + [10, 20, 30] ! i)"
  using add_elementwise [of "[1, 2, 3 :: int]" 3 "[10, 20, 30]"] by simp

subsection \<open>The order of the guard and the reads\<close>

lemma ensure_compatibility_ev_eval:
  "ensure_compatibility_ev a b (s, tr) =
     (if length (vectors s ! a) \<noteq> length (vectors s ! b) then Inl different_length else Inr NoneValue,
      (s, tr @ [Len a, Len b]))"
  by (simp add: ensure_compatibility_ev_def bind_st_def len_ev_def)

lemma zip_ev_reads:
  assumes "\<forall>j\<in>set js. j < length (vectors s ! a) \<and> j < length (vectors s ! b)"
  shows "zip_ev a b js (s, tr) =
     (Inr (map (\<lambda>j. (vectors s ! a ! j, vectors s ! b ! j)) js),
      (s, tr @ concat (map (\<lambda>j. [Get a j, Get b j]) js)))"
  using assms
proof (induction js arbitrary: tr)
  case Nil
  show ?case by simp
next
  case (Cons j js)
  then have j: "j < length (vectors s ! a)" "j < length (vectors s ! b)" by simp_all
  have "zip_ev a b js (s, (tr @ [Get a j]) @ [Get b j]) =
     (Inr (map (\<lambda>j. (vectors s ! a ! j, vectors s ! b ! j)) js),
      (s, ((tr @ [Get a j]) @ [Get b j]) @ concat (map (\<lambda>j. [Get a j, Get b j]) js)))"
    using Cons.prems by (intro Cons.IH) simp
  then show ?case using j by (simp add: get_ev_def getitem_def)
qed

lemma zip_nth_upt:
  "length xs = length ys \<Longrightarrow> map (\<lambda>j. (xs ! j, ys ! j)) [0..<length xs] = zip xs ys"
  by (rule nth_equalityI) simp_all

lemma add_ev_equal:
  assumes "length (vectors s ! a) = length (vectors s ! b)"
  shows "add_ev a b (s, tr) =
     (Inr (length (vectors s)),
      (s\<lparr>vectors := vectors s @ [map2 (+) (vectors s ! a) (vectors s ! b)]\<rparr>,
       tr @ [Len a, Len b] @ concat (map (\<lambda>j. [Get a j, Get b j]) [0..<length (vectors s ! a)])
           @ [New (length (vectors s))]))"
proof -
  have z: "zip_ev a b [0..<length (vectors s ! a)] (s, tr @ [Len a, Len b]) =
     (Inr (zip (vectors s ! a) (vectors s ! b)),
      (s, (tr @ [Len a, Len b]) @ concat (map (\<lambda>j. [Get a j, Get b j]) [0..<length (vectors s ! a)])))"
  proof -
    have "\<forall>j\<in>set [0..<length (vectors s ! a)].
        j < length (vectors s ! a) \<and> j < length (vectors s ! b)"
      using assms by simp
    from zip_ev_reads [OF this, of "tr @ [Len a, Len b]"] zip_nth_upt [OF assms]
    show ?thesis by (simp only:)
  qed
  have g: "ensure_compatibility_ev a b (s, tr) = (Inr NoneValue, (s, tr @ [Len a, Len b]))"
    using assms by (simp add: ensure_compatibility_ev_eval)
  show ?thesis
    by (simp add: add_ev_def bind_st_def g z new_ev_def)
qed

lemma ensure_compatibility_ev_passes:
  "length (vectors s ! a) = length (vectors s ! b) \<Longrightarrow>
   ensure_compatibility_ev a b (s, tr) = (Inr NoneValue, (s, tr @ [Len a, Len b]))"
  by (simp add: ensure_compatibility_ev_eval)

lemma zip_ev_equal:
  assumes "length (vectors s ! a) = length (vectors s ! b)"
  shows "zip_ev a b [0..<length (vectors s ! a)] (s, tr) =
     (Inr (zip (vectors s ! a) (vectors s ! b)),
      (s, tr @ concat (map (\<lambda>j. [Get a j, Get b j]) [0..<length (vectors s ! a)])))"
proof -
  have "\<forall>j\<in>set [0..<length (vectors s ! a)].
      j < length (vectors s ! a) \<and> j < length (vectors s ! b)"
    using assms by simp
  from zip_ev_reads [OF this, of tr] zip_nth_upt [OF assms]
  show ?thesis by (simp only:)
qed

lemma sub_ev_equal:
  assumes "length (vectors s ! a) = length (vectors s ! b)"
  shows "sub_ev a b (s, tr) =
     (Inr (length (vectors s)),
      (s\<lparr>vectors := vectors s @ [map2 (-) (vectors s ! a) (vectors s ! b)]\<rparr>,
       tr @ [Len a, Len b] @ concat (map (\<lambda>j. [Get a j, Get b j]) [0..<length (vectors s ! a)])
           @ [New (length (vectors s))]))"
  by (simp add: sub_ev_def bind_st_def ensure_compatibility_ev_passes [OF assms]
      zip_ev_equal [OF assms] new_ev_def)

lemma scalar_prod_ev_equal:
  assumes "length (vectors s ! a) = length (vectors s ! b)"
  shows "scalar_prod_ev a b (s, tr) =
     (Inr (py_sum (map2 (*) (vectors s ! a) (vectors s ! b))),
      (s, tr @ [Len a, Len b] @ concat (map (\<lambda>j. [Get a j, Get b j]) [0..<length (vectors s ! a)])))"
  by (simp add: scalar_prod_ev_def bind_st_def ensure_compatibility_ev_passes [OF assms]
      zip_ev_equal [OF assms])

text \<open>
  C7. For Vectors \<open>a\<close> and \<open>b\<close> of unequal size, \<open>a + b\<close>, \<open>a - b\<close> and the scalar product
  raise the \<open>TypeError\<close> of the length guard, and they raise it at their start: when the
  exception leaves the operation, the store is as it was and the operation has done
  nothing but take the two lengths. No element of either operand has been read, none has
  been written and no Vector has been constructed. (For operands of equal size the reads
  and the construction follow the guard: \<open>add_ev_equal\<close>, \<open>sub_ev_equal\<close> and
  \<open>scalar_prod_ev_equal\<close>, whose values are those of \<open>add_Vector\<close>, \<open>sub_Vector\<close> and
  \<open>scalar_prod_Vector\<close>.)
\<close>

theorem unequal_size_raises:
  fixes s :: "'a::{zero,plus,minus,times} store"
  assumes "a < length (vectors s)" and "b < length (vectors s)"
    and "vectors s ! a = xs" and "vectors s ! b = ys" and "length xs \<noteq> length ys"
  shows "ensure_compatibility xs (Vector ys) = Inl different_length
    \<and> add xs (Vector ys) = Inl different_length
    \<and> sub xs (Vector ys) = Inl different_length
    \<and> scalar_prod xs (Vector ys) = Inl different_length
    \<and> add_ev a b (s, tr) = (Inl different_length, (s, tr @ [Len a, Len b]))
    \<and> sub_ev a b (s, tr) = (Inl different_length, (s, tr @ [Len a, Len b]))
    \<and> scalar_prod_ev a b (s, tr) = (Inl different_length, (s, tr @ [Len a, Len b]))"
  using assms
  by (simp add: add_def sub_def scalar_prod_def length_mismatch
      add_ev_def sub_ev_def scalar_prod_ev_def bind_st_def ensure_compatibility_ev_eval)

theorem unequal_size_raises_witness:
  "0 < length (vectors \<lparr>vectors = [[1, 2], [10, 20, 30 :: int]], matrices = []\<rparr>)
    \<and> 1 < length (vectors \<lparr>vectors = [[1, 2], [10, 20, 30 :: int]], matrices = []\<rparr>)
    \<and> length [1, 2 :: int] \<noteq> length [10, 20, 30 :: int]
    \<and> ensure_compatibility [1, 2 :: int] (Vector [10, 20, 30]) = Inl different_length
    \<and> add [1, 2 :: int] (Vector [10, 20, 30]) = Inl different_length
    \<and> sub [1, 2 :: int] (Vector [10, 20, 30]) = Inl different_length
    \<and> scalar_prod [1, 2 :: int] (Vector [10, 20, 30]) = Inl different_length
    \<and> add_ev 0 1 (\<lparr>vectors = [[1, 2], [10, 20, 30 :: int]], matrices = []\<rparr>, [])
        = (Inl different_length, (\<lparr>vectors = [[1, 2], [10, 20, 30]], matrices = []\<rparr>, [Len 0, Len 1]))
    \<and> sub_ev 0 1 (\<lparr>vectors = [[1, 2], [10, 20, 30 :: int]], matrices = []\<rparr>, [])
        = (Inl different_length, (\<lparr>vectors = [[1, 2], [10, 20, 30]], matrices = []\<rparr>, [Len 0, Len 1]))
    \<and> scalar_prod_ev 0 1 (\<lparr>vectors = [[1, 2], [10, 20, 30 :: int]], matrices = []\<rparr>, [])
        = (Inl different_length, (\<lparr>vectors = [[1, 2], [10, 20, 30]], matrices = []\<rparr>, [Len 0, Len 1]))"
  using unequal_size_raises [of 0 "\<lparr>vectors = [[1, 2], [10, 20, 30 :: int]], matrices = []\<rparr>" 1
      "[1, 2]" "[10, 20, 30]" "[]"]
  by simp

text \<open>
  C3. An operand that is not a Vector does not make the operations fail: the guard
  returns \<open>NotImplemented\<close> to a caller that drops it, and a plain list of three elements
  is zipped with a Vector of two. The sum, the difference and the scalar product of the
  first two elements come back, and the third element is ignored.
\<close>

theorem plain_list_operand_truncates:
  "ensure_compatibility [1, 2 :: int] (PyList [10, 20, 30]) = Inr NotImplemented
    \<and> add [1, 2 :: int] (PyList [10, 20, 30]) = Inr [11, 22]
    \<and> sub [1, 2 :: int] (PyList [10, 20, 30]) = Inr [- 9, - 18]
    \<and> scalar_prod [1, 2 :: int] (PyList [10, 20, 30]) = Inr 50"
  by (simp add: add_def sub_def scalar_prod_def ensure_compatibility_def iter_def
      num_add_def num_sub_def num_mul_def py_sum_def)

section \<open>Matrix: multiplication\<close>

lemma getitem_in [simp]: "i < length xs \<Longrightarrow> getitem xs i = Inr (xs ! i)"
  by (simp add: getitem_def)

lemma getitem_out: "\<not> i < length xs \<Longrightarrow> getitem xs i = Inl (IndexError ''list index out of range'')"
  by (simp add: getitem_def)

lemma rows_Cons [simp]: "rows (c # cs) = Inr (length c)"
  by (simp add: rows_def)


lemma rows_nonempty: "self \<noteq> [] \<Longrightarrow> rows self = Inr (length (self ! 0))"
  by (cases self) simp_all

text \<open>Row \<open>i\<close> of a Matrix all of whose columns reach index \<open>i\<close>.\<close>

lemma row_vector_map:
  "(\<And>c. c \<in> set self \<Longrightarrow> i < length c) \<Longrightarrow> row_vector self i = Inr (map (\<lambda>c. c ! i) self)"
proof -
  assume h: "\<And>c. c \<in> set self \<Longrightarrow> i < length c"
  have A: "traverse (\<lambda>j. bind_res (getitem self j) (\<lambda>c. getitem c i)) [0..<length self]
        = Inr (map (\<lambda>j. self ! j ! i) [0..<length self])"
  proof (rule traverse_map)
    fix j assume "j \<in> set [0..<length self]"
    then have j: "j < length self" by simp
    then have "i < length (self ! j)" using h [of "self ! j"] by simp
    then show "bind_res (getitem self j) (\<lambda>c. getitem c i) = Inr (self ! j ! i)"
      using j by simp
  qed
  have B: "map (\<lambda>j. self ! j ! i) [0..<length self] = map (\<lambda>c. c ! i) self"
    by (rule nth_equalityI) simp_all
  show ?thesis by (simp only: row_vector_def cols_def A B)
qed

lemma mul_column_rect:
  assumes ne: "self \<noteq> []" and rect: "\<And>c. c \<in> set self \<Longrightarrow> length c = length (self ! 0)"
    and len: "length v = length self"
  shows "mul_column self v =
     Inr (map (\<lambda>i. py_sum (map2 (*) (map (\<lambda>c. c ! i) self) v)) [0..<length (self ! 0)])"
proof -
  have "traverse (\<lambda>i. bind_res (row_vector self i) (\<lambda>row. scalar_prod row (Vector v))) [0..<length (self ! 0)]
     = Inr (map (\<lambda>i. py_sum (map2 (*) (map (\<lambda>c. c ! i) self) v)) [0..<length (self ! 0)])"
  proof (rule traverse_map)
    fix i assume "i \<in> set [0..<length (self ! 0)]"
    then have "row_vector self i = Inr (map (\<lambda>c. c ! i) self)"
      by (intro row_vector_map) (simp add: rect)
    then show "bind_res (row_vector self i) (\<lambda>row. scalar_prod row (Vector v))
        = Inr (py_sum (map2 (*) (map (\<lambda>c. c ! i) self) v))"
      by (simp add: scalar_prod_Vector len)
  qed
  then show ?thesis by (simp add: mul_column_def rows_nonempty ne)
qed

lemma length_identity [simp]: "length (identity n) = nat n"
  by (simp add: identity_def py_range_def)











section \<open>Matrix: the identity\<close>







section \<open>Matrix: the shape of a product\<close>








section \<open>Matrix: a Vector as the left operand\<close>

lemma rmul_Vector: "rmul M (Vector v) = mul [v] (Matrix M)"
  by (simp add: rmul_def py_range_def)

lemma mul_column_single:
  assumes "length c = 1"
  shows "mul_column [v] c = Inr (map (\<lambda>x. x * c ! 0) (v :: 'a::comm_ring_1 list))"
proof -
  from assms obtain y where c: "c = [y]" by (cases c) simp_all
  have "mul_column [v] c = Inr (map (\<lambda>i. py_sum (map2 (*) (map (\<lambda>c. c ! i) [v]) c)) [0..<length ([v] ! 0)])"
    by (rule mul_column_rect) (simp_all add: assms)
  also have "map (\<lambda>i. py_sum (map2 (*) (map (\<lambda>c. c ! i) [v]) c)) [0..<length ([v] ! 0)] = map (\<lambda>x. x * c ! 0) v"
    by (rule nth_equalityI) (simp_all add: c py_sum_def)
  finally show ?thesis .
qed

text \<open>
  C4 (amended). For a Vector \<open>v\<close> of size \<open>N\<close> and a non-empty Matrix \<open>M\<close> with columns of one
  length, \<open>v * M\<close> wraps \<open>v\<close> as the only column of a Matrix (\<open>N\<close> rows, one column) and
  is the ordinary product of that Matrix with \<open>M\<close>. It is defined exactly when \<open>M\<close> has one
  row, whatever \<open>N\<close> is: the result then has a column for each column of \<open>M\<close>, namely \<open>v\<close>
  scaled by the only entry of that column, and is that one column, as a bare Vector,
  when \<open>M\<close> has one column; when \<open>M\<close> has another number of rows the dimension guard
  raises. Only a Vector is accepted as the left operand: a number, a plain list and a
  Matrix raise \<open>TypeError\<close>.
\<close>

theorem rmul_single_column:
  assumes "M \<noteq> []" and "\<forall>c\<in>set M. length c = length (M ! 0)"
  shows "mul [v] (Matrix M) = rmul (M :: 'a::comm_ring_1 list list) (Vector v)
    \<and> rmul M (Vector v) =
        (if length (M ! 0) = 1
         then Inr (if length M = 1 then Vector (map (\<lambda>x. x * M ! 0 ! 0) v)
                   else Matrix (map (\<lambda>c. map (\<lambda>x. x * c ! 0) v) M))
         else Inl not_multiplicable)
    \<and> rmul M (Number x) = Inl not_matrix_or_vector
    \<and> rmul M (PyList ys) = Inl not_matrix_or_vector
    \<and> rmul M (Matrix B) = Inl (not_matrix_or_vector :: error)"
proof -
  have r: "rows M = Inr (length (M ! 0))" using assms(1) by (rule rows_nonempty)
  have "mul [v] (Matrix M) =
        (if length (M ! 0) = 1
         then Inr (if length M = 1 then Vector (map (\<lambda>x. x * M ! 0 ! 0) v)
                   else Matrix (map (\<lambda>c. map (\<lambda>x. x * c ! 0) v) M))
         else Inl not_multiplicable)"
  proof (cases "length (M ! 0) = 1")
    case False
    then show ?thesis by (simp add: mul_def ensure_multiplicable_def r cols_def)
  next
    case True
    have "traverse (\<lambda>k. bind_res (getitem M k) (\<lambda>c. mul_column [v] c)) [0..<length M]
        = Inr (map (\<lambda>k. map (\<lambda>x. x * M ! k ! 0) v) [0..<length M])"
    proof (rule traverse_map)
      fix k assume "k \<in> set [0..<length M]"
      then have k: "k < length M" by simp
      then have "length (M ! k) = 1" using assms(2) True by simp
      then have "mul_column [v] (M ! k) = Inr (map (\<lambda>x. x * M ! k ! 0) v)"
        by (rule mul_column_single)
      then show "bind_res (getitem M k) (\<lambda>c. mul_column [v] c) = Inr (map (\<lambda>x. x * M ! k ! 0) v)"
        using k by simp
    qed
    moreover have "map (\<lambda>k. map (\<lambda>x. x * M ! k ! 0) v) [0..<length M] = map (\<lambda>c. map (\<lambda>x. x * c ! 0) v) M"
      by (rule nth_equalityI) simp_all
    ultimately have m: "mul_columns [v] M = Inr (map (\<lambda>c. map (\<lambda>x. x * c ! 0) v) M)"
      by (simp add: mul_columns_def cols_def)
    show ?thesis using True assms(1)
      by (simp add: mul_def ensure_multiplicable_def r cols_def m)
  qed
  then show ?thesis by (simp add: rmul_Vector) (simp add: rmul_def)
qed

theorem rmul_single_column_witness:
  "[[3], [4], [5 :: int]] \<noteq> []
    \<and> length [3 :: int] = length ([[3], [4], [5 :: int]] ! 0)
    \<and> length [4 :: int] = length ([[3], [4], [5 :: int]] ! 0)
    \<and> length [5 :: int] = length ([[3], [4], [5 :: int]] ! 0)
    \<and> mul [[1, 2]] (Matrix [[3], [4], [5 :: int]]) = rmul [[3], [4], [5]] (Vector [1, 2])
    \<and> rmul [[3], [4], [5 :: int]] (Vector [1, 2]) = Inr (Matrix [[3, 6], [4, 8], [5, 10]])
    \<and> rmul [[3], [4], [5 :: int]] (Number 2) = Inl not_matrix_or_vector
    \<and> rmul [[3], [4], [5 :: int]] (PyList [1, 2]) = Inl not_matrix_or_vector
    \<and> rmul [[3], [4], [5 :: int]] (Matrix [[1, 2]]) = Inl not_matrix_or_vector"
  using rmul_single_column [of "[[3], [4], [5 :: int]]" "[1, 2]" 2 "[1, 2]" "[[1, 2]]"] by simp

text \<open>
  C4 as stated has \<open>v * M\<close> defined exactly when the size of \<open>v\<close> is the number of rows of
  \<open>M\<close>, with a result of one row. A Vector of size 2 times the 2 by 2 identity raises,
  and the same Vector times a Matrix of one row and three columns returns a Matrix of
  two rows and three columns.
\<close>

theorem rmul_square_raises:
  "rmul [[1, 0], [0, 1 :: int]] (Vector [1, 2]) = Inl not_multiplicable
    \<and> rmul [[3], [4], [5 :: int]] (Vector [1, 2]) = Inr (Matrix [[3, 6], [4, 8], [5, 10]])"
  by (simp add: rmul_def py_range_def mul_def ensure_multiplicable_def cols_def rows_def mul_columns_def mul_column_def
      row_vector_def scalar_prod_def ensure_compatibility_def iter_def num_mul_def py_sum_def)

section \<open>The rotation matrix\<close>

text \<open>
  C2 (amended). For every angle, \<open>create_rotation_matrix\<close> returns a Matrix of two columns
  and two rows whose first column is the Vector \<open>(cos \<theta>, sin \<theta>)\<close> and whose second column
  is the Vector \<open>(- sin \<theta>, cos \<theta>)\<close>: its product with the Vector \<open>(x, y)\<close> is
  \<open>(x cos \<theta> - y sin \<theta>, x sin \<theta> + y cos \<theta>)\<close>.
\<close>

theorem create_rotation_matrix_columns:
  "cols (create_rotation_matrix angle) = 2
    \<and> rows (create_rotation_matrix angle) = Inr 2
    \<and> getitem (create_rotation_matrix angle) 0 = Inr [cos angle, sin angle]
    \<and> getitem (create_rotation_matrix angle) 1 = Inr [- sin angle, cos angle]
    \<and> mul (create_rotation_matrix angle) (Vector [x, y])
        = Inr (Vector [x * cos angle - y * sin angle, x * sin angle + y * cos angle])"
  by (simp add: create_rotation_matrix_def cols_def mul_def ensure_multiplicable_def mul_column_def
      row_vector_def scalar_prod_def ensure_compatibility_def iter_def num_mul_def py_sum_def
      mult.commute)

text \<open>
  C2 as stated gives the columns \<open>(cos \<theta>, - sin \<theta>)\<close> and \<open>(sin \<theta>, cos \<theta>)\<close>. At a quarter
  turn the first column is \<open>(0, 1)\<close> and the second is \<open>(- 1, 0)\<close>; the stated ones would
  be \<open>(0, - 1)\<close> and \<open>(1, 0)\<close>.
\<close>

theorem create_rotation_matrix_quarter_turn:
  "getitem (create_rotation_matrix (pi / 2)) 0 = Inr [0, 1]
    \<and> getitem (create_rotation_matrix (pi / 2)) 0 \<noteq> Inr [cos (pi / 2), - sin (pi / 2)]
    \<and> getitem (create_rotation_matrix (pi / 2)) 1 = Inr [- 1, 0]
    \<and> getitem (create_rotation_matrix (pi / 2)) 1 \<noteq> Inr [sin (pi / 2), cos (pi / 2)]"
  by (simp add: create_rotation_matrix_def)

section \<open>The staggered iteration of the driver\<close>

lemma for_each_append:
  "for_each body (xs @ ys) s = bind_res (for_each body xs s) (for_each body ys)"
  by (induction xs arbitrary: s) (simp_all split: sum.splits)

lemma update_item_ok:
  "i < length xs \<Longrightarrow> f (xs ! i) = Inr q \<Longrightarrow> update_item f i xs = Inr (xs[i := q])"
  by (simp add: update_item_def)

text \<open>An inner loop over distinct indices applies the step once at each of them.\<close>

lemma for_each_update_item:
  assumes "distinct js" and "\<forall>j\<in>set js. j < length xs"
    and "\<forall>p. P p \<longrightarrow> conv p = Inr (g p) \<and> P (g p)" and "\<forall>p\<in>set xs. P p"
  shows "for_each (update_item conv) js xs
    = Inr (map (\<lambda>i. if i \<in> set js then g (xs ! i) else xs ! i) [0..<length xs])"
  using assms(1,2,4)
proof (induction js arbitrary: xs)
  case Nil
  then show ?case by (simp add: map_nth)
next
  case (Cons j js)
  let ?xs = "xs[j := g (xs ! j)]"
  from Cons.prems have j: "j < length xs" and Pj: "P (xs ! j)" by simp_all
  with assms(3) have cj: "conv (xs ! j) = Inr (g (xs ! j))" and Pg: "P (g (xs ! j))" by simp_all
  have step: "update_item conv j xs = Inr ?xs" using j cj by (rule update_item_ok)
  have P': "\<forall>p\<in>set ?xs. P p"
    using Cons.prems(3) Pg set_update_subset_insert [of xs j "g (xs ! j)"] by auto
  have "for_each (update_item conv) js ?xs
      = Inr (map (\<lambda>i. if i \<in> set js then g (?xs ! i) else ?xs ! i) [0..<length ?xs])"
    using Cons.prems(1,2) P' by (intro Cons.IH) simp_all
  also have "map (\<lambda>i. if i \<in> set js then g (?xs ! i) else ?xs ! i) [0..<length ?xs]
      = map (\<lambda>i. if i \<in> set (j # js) then g (xs ! i) else xs ! i) [0..<length xs]"
  proof (rule nth_equalityI)
    show "length (map (\<lambda>i. if i \<in> set js then g (?xs ! i) else ?xs ! i) [0..<length ?xs])
        = length (map (\<lambda>i. if i \<in> set (j # js) then g (xs ! i) else xs ! i) [0..<length xs])"
      by simp
  next
    fix i assume "i < length (map (\<lambda>i. if i \<in> set js then g (?xs ! i) else ?xs ! i) [0..<length ?xs])"
    then have i: "i < length xs" by simp
    have nj: "j \<notin> set js" using Cons.prems(1) by simp
    show "map (\<lambda>i. if i \<in> set js then g (?xs ! i) else ?xs ! i) [0..<length ?xs] ! i
        = map (\<lambda>i. if i \<in> set (j # js) then g (xs ! i) else xs ! i) [0..<length xs] ! i"
    proof (cases "i = j")
      case True
      then show ?thesis using i nj by simp
    next
      case False
      then show ?thesis using i by simp
    qed
  qed
  finally have rest: "for_each (update_item conv) js ?xs
      = Inr (map (\<lambda>i. if i \<in> set (j # js) then g (xs ! i) else xs ! i) [0..<length xs])" .
  show ?case by (simp only: for_each.simps step sum.case rest)
qed

lemma funpow_pres:
  assumes "\<forall>p. P p \<longrightarrow> conv p = Inr (g p) \<and> P (g p)" and "P p"
  shows "P ((g ^^ k) p)"
  using assms by (induction k) simp_all

text \<open>The state of \<open>main\<close> after the passes \<open>1, \<dots>, k\<close> of its outer loop.\<close>

lemma main_passes:
  assumes inv: "\<forall>p. P p \<longrightarrow> conv p = Inr (g p) \<and> P (g p)"
    and fig: "\<forall>p\<in>set figure. P p" and dts: "\<forall>p\<in>set dots. P p"
    and len: "length dots = TOTAL_STEPS"
  shows "k < TOTAL_STEPS \<Longrightarrow> for_each (main_step conv) [1..<Suc k] (figure, dots)
    = Inr (map (g ^^ k) figure, map (\<lambda>i. (g ^^ min i k) (dots ! i)) [0..<TOTAL_STEPS])"
proof (induction k)
  case 0
  have "map (\<lambda>i. dots ! i) [0..<TOTAL_STEPS] = dots"
    unfolding len [symmetric] by (rule map_nth)
  then show ?case by simp
next
  case (Suc k)
  let ?f = "map (g ^^ k) figure"
  let ?d = "map (\<lambda>i. (g ^^ min i k) (dots ! i)) [0..<TOTAL_STEPS]"
  from Suc have prev: "for_each (main_step conv) [1..<Suc k] (figure, dots) = Inr (?f, ?d)" by simp
  have Pf: "\<forall>p\<in>set ?f. P p" using fig funpow_pres [OF inv] by auto
  have Pd: "\<forall>p\<in>set ?d. P p" using dts len funpow_pres [OF inv] by auto
  have f': "for_each (update_item conv) [0..<length ?f] ?f
      = Inr (map (\<lambda>i. if i \<in> set [0..<length ?f] then g (?f ! i) else ?f ! i) [0..<length ?f])"
    using inv Pf by (intro for_each_update_item [where P = P]) simp_all
  have f'': "map (\<lambda>i. if i \<in> set [0..<length ?f] then g (?f ! i) else ?f ! i) [0..<length ?f]
      = map (g ^^ Suc k) figure"
    by (intro nth_equalityI) simp_all
  have d': "for_each (update_item conv) [Suc k..<TOTAL_STEPS] ?d
      = Inr (map (\<lambda>i. if i \<in> set [Suc k..<TOTAL_STEPS] then g (?d ! i) else ?d ! i) [0..<length ?d])"
    using inv Pd by (intro for_each_update_item [where P = P]) simp_all
  have d'': "map (\<lambda>i. if i \<in> set [Suc k..<TOTAL_STEPS] then g (?d ! i) else ?d ! i) [0..<length ?d]
      = map (\<lambda>i. (g ^^ min i (Suc k)) (dots ! i)) [0..<TOTAL_STEPS]"
    by (intro nth_equalityI) (auto simp add: min_def)
  have step: "main_step conv (Suc k) (?f, ?d)
      = Inr (map (g ^^ Suc k) figure, map (\<lambda>i. (g ^^ min i (Suc k)) (dots ! i)) [0..<TOTAL_STEPS])"
    unfolding main_step_def by (simp only: prod.case f' f'' d' d'' bind_res_simps)
  have "[1..<Suc (Suc k)] = [1..<Suc k] @ [Suc k]" by simp
  then show ?case by (simp only: for_each_append prev bind_res_simps for_each.simps step sum.case)
qed

text \<open>
  C5 (amended). Let \<open>convert\<close> succeed on a class of points that it maps into itself, \<open>g\<close>
  being what it computes there, and let the figure and the \<open>TOTAL_STEPS = 8\<close> dots be in
  that class. Then the loops of \<open>main\<close> run to their end, and point \<open>i\<close> of the dots has had
  the transform applied exactly \<open>i\<close> times, for \<open>i = 0, \<dots>, 7\<close>: the fixed point at index 0 is
  never transformed and the last point is transformed \<open>TOTAL_STEPS - 1\<close> times, as every
  vertex of the figure is.
\<close>

theorem staggered_dots:
  assumes "\<forall>p. P p \<longrightarrow> conv p = Inr (g p) \<and> P (g p)"
    and "\<forall>p\<in>set figure. P p" and "\<forall>p\<in>set dots. P p"
    and "length dots = TOTAL_STEPS"
  shows "\<exists>figure' dots'. main_loop conv (figure, dots) = Inr (figure', dots')
    \<and> length dots' = TOTAL_STEPS
    \<and> (\<forall>i<TOTAL_STEPS. dots' ! i = (g ^^ i) (dots ! i))
    \<and> figure' = map (g ^^ (TOTAL_STEPS - 1)) figure"
proof -
  have k: "TOTAL_STEPS - 1 < TOTAL_STEPS" by (simp add: TOTAL_STEPS_def)
  have "main_loop conv (figure, dots) = for_each (main_step conv) [1..<Suc (TOTAL_STEPS - 1)] (figure, dots)"
    by (simp add: main_loop_def TOTAL_STEPS_def)
  also note main_passes [OF assms k]
  finally have "main_loop conv (figure, dots)
    = Inr (map (g ^^ (TOTAL_STEPS - 1)) figure,
           map (\<lambda>i. (g ^^ min i (TOTAL_STEPS - 1)) (dots ! i)) [0..<TOTAL_STEPS])" .
  moreover have "min i (TOTAL_STEPS - 1) = i" if "i < TOTAL_STEPS" for i using that by simp
  ultimately show ?thesis by simp
qed

theorem staggered_dots_witness:
  "length [0, 0, 0, 0, 0, 0, 0, 0 :: nat] = TOTAL_STEPS
    \<and> (\<exists>figure' dots'.
          main_loop (\<lambda>c. Inr (Suc c)) ([0, 0, 0, 0], [0, 0, 0, 0, 0, 0, 0, 0 :: nat]) = Inr (figure', dots')
        \<and> length dots' = TOTAL_STEPS
        \<and> (\<forall>i<TOTAL_STEPS. dots' ! i = (Suc ^^ i) 0)
        \<and> figure' = [7, 7, 7, 7])"
proof -
  have len: "length [0, 0, 0, 0, 0, 0, 0, 0 :: nat] = TOTAL_STEPS" by (simp add: TOTAL_STEPS_def)
  have inv: "\<forall>p::nat. (\<lambda>_. True) p \<longrightarrow> (Inr (Suc p) :: error + nat) = Inr (Suc p) \<and> (\<lambda>_. True) (Suc p)" by simp
  have nth: "[0, 0, 0, 0, 0, 0, 0, 0 :: nat] ! i = 0" if "i < TOTAL_STEPS" for i
    using that by (simp add: TOTAL_STEPS_def nth_Cons split: nat.splits)
  have seven: "(Suc ^^ (TOTAL_STEPS - 1)) 0 = 7" by (simp add: TOTAL_STEPS_def eval_nat_numeral)
  from staggered_dots [of "\<lambda>_. True" "\<lambda>c. Inr (Suc c)" Suc "[0, 0, 0, 0]" "[0, 0, 0, 0, 0, 0, 0, 0 :: nat]", OF inv _ _ len]
  obtain figure' dots' where
    "main_loop (\<lambda>c. Inr (Suc c)) ([0, 0, 0, 0], [0, 0, 0, 0, 0, 0, 0, 0 :: nat]) = Inr (figure', dots')"
    "length dots' = TOTAL_STEPS"
    "\<forall>i<TOTAL_STEPS. dots' ! i = (Suc ^^ i) ([0, 0, 0, 0, 0, 0, 0, 0 :: nat] ! i)"
    "figure' = map (Suc ^^ (TOTAL_STEPS - 1)) [0, 0, 0, 0]"
    by auto
  then show ?thesis using len nth seven by auto
qed

text \<open>
  C5 as stated has point \<open>i\<close> transformed \<open>TOTAL_STEPS - i\<close> times. With a counter for every
  point, started at 0 and incremented by each transform, the run ends with the counters
  \<open>0, 1, \<dots>, 7\<close> on the dots: point 0 has been transformed 0 times, not 8.
\<close>

theorem first_dot_never_transformed:
  "main_loop (\<lambda>c. Inr (Suc c)) ([0, 0, 0, 0], [0, 0, 0, 0, 0, 0, 0, 0 :: nat])
     = Inr ([7, 7, 7, 7], [0, 1, 2, 3, 4, 5, 6, 7])
   \<and> [0, 1, 2, 3, 4, 5, 6, 7] ! 0 \<noteq> TOTAL_STEPS - 0"
  by code_simp

text \<open>
  The driver itself: \<open>m\<close> is a Matrix of two columns and two rows and \<open>dv\<close> a Vector of size
  2, the figure and the dots are Vectors of size 2, and \<open>convert\<close> maps these to Vectors of
  size 2 without raising.
\<close>

lemma convert_plane:
  fixes a :: "'a::comm_ring_1"
  assumes "length p = 2"
  shows "convert p [[a, b], [c, d]] [e, f]
      = Inr [a * p ! 0 + c * p ! 1 + e, b * p ! 0 + d * p ! 1 + f]"
proof -
  from assms obtain x y where p: "p = [x, y]"
    by (cases p; cases "tl p") auto
  show ?thesis
    by (simp add: p convert_def mul_def ensure_multiplicable_def cols_def mul_column_def
        row_vector_def scalar_prod_def ensure_compatibility_def iter_def num_mul_def py_sum_def
        add_def num_add_def)
qed

lemma main_loop_plane:
  fixes a :: "'a::comm_ring_1"
  assumes "\<forall>p\<in>set figure. length p = 2" and "\<forall>p\<in>set dots. length p = 2"
    and "length dots = TOTAL_STEPS"
  shows "main_loop (\<lambda>p. convert p [[a, b], [c, d]] [e, f]) (figure, dots)
    = Inr (map ((\<lambda>p. [a * p ! 0 + c * p ! 1 + e, b * p ! 0 + d * p ! 1 + f]) ^^ (TOTAL_STEPS - 1)) figure,
           map (\<lambda>i. ((\<lambda>p. [a * p ! 0 + c * p ! 1 + e, b * p ! 0 + d * p ! 1 + f]) ^^ i) (dots ! i))
             [0..<TOTAL_STEPS])"
proof -
  let ?g = "\<lambda>p. [a * p ! 0 + c * p ! 1 + e, b * p ! 0 + d * p ! 1 + f]"
  have inv: "\<forall>p. length p = 2 \<longrightarrow> convert p [[a, b], [c, d]] [e, f] = Inr (?g p) \<and> length (?g p) = 2"
    by (simp add: convert_plane)
  have k: "TOTAL_STEPS - 1 < TOTAL_STEPS" by (simp add: TOTAL_STEPS_def)
  have "main_loop (\<lambda>p. convert p [[a, b], [c, d]] [e, f]) (figure, dots)
      = for_each (main_step (\<lambda>p. convert p [[a, b], [c, d]] [e, f])) [1..<Suc (TOTAL_STEPS - 1)] (figure, dots)"
    by (simp add: main_loop_def TOTAL_STEPS_def)
  also note main_passes [where P = "\<lambda>p. length p = 2", OF inv assms k]
  also have "map (\<lambda>i. (?g ^^ min i (TOTAL_STEPS - 1)) (dots ! i)) [0..<TOTAL_STEPS]
      = map (\<lambda>i. (?g ^^ i) (dots ! i)) [0..<TOTAL_STEPS]"
    by (rule map_cong) (auto simp add: min_def)
  finally show ?thesis .
qed

section \<open>The affine step leaves its arguments alone\<close>

lemma unchanged_refl [simp]: "unchanged s s"
  by (simp add: unchanged_def)

lemma unchanged_length: "unchanged s s' \<Longrightarrow> length (vectors s) \<le> length (vectors s')"
proof -
  assume "unchanged s s'"
  then have "length (take (length (vectors s)) (vectors s')) = length (vectors s)"
    by (simp only: unchanged_def)
  then show ?thesis by simp
qed

lemma unchanged_nth:
  assumes "unchanged s s'" and "r < length (vectors s)"
  shows "vectors s' ! r = vectors s ! r"
proof -
  have "take (length (vectors s)) (vectors s') ! r = vectors s' ! r"
    using assms(2) by simp
  then show ?thesis using assms(1) by (simp add: unchanged_def)
qed

lemma unchanged_trans:
  assumes "unchanged s s'" and "unchanged s' s''"
  shows "unchanged s s''"
proof -
  have le: "length (vectors s) \<le> length (vectors s')" using assms(1) by (rule unchanged_length)
  have "take (length (vectors s)) (vectors s'')
      = take (length (vectors s)) (take (length (vectors s')) (vectors s''))"
    using le by (simp add: min_def)
  also have "\<dots> = take (length (vectors s)) (vectors s')"
    using assms(2) by (simp add: unchanged_def)
  also have "\<dots> = vectors s" using assms(1) by (simp add: unchanged_def)
  finally show ?thesis using assms by (simp add: unchanged_def)
qed

lemma unchanged_columns:
  assumes "unchanged s s'" and "\<forall>c\<in>set (matrices s ! m). c < length (vectors s)"
  shows "columns s' m = columns s m"
proof -
  have "matrices s' = matrices s" using assms(1) by (simp add: unchanged_def)
  then show ?thesis using assms by (simp add: columns_def unchanged_nth)
qed

lemma new_Vector_fresh:
  "\<exists>s'. new_Vector xs s = (Inr (length (vectors s)), s') \<and> unchanged s s'
     \<and> length (vectors s') = Suc (length (vectors s)) \<and> vectors s' ! length (vectors s) = xs"
  by (simp add: new_Vector_def unchanged_def)

lemma traverse_st_reads:
  assumes "\<And>x s'. x \<in> set xs \<Longrightarrow> unchanged s s' \<Longrightarrow> \<exists>s''. f x s' = (g x, s'') \<and> unchanged s' s''"
  shows "unchanged s s1 \<Longrightarrow> \<exists>s2. traverse_st f xs s1 = (traverse g xs, s2) \<and> unchanged s1 s2"
  using assms
proof (induction xs arbitrary: s1)
  case Nil
  then show ?case by simp
next
  case (Cons x xs)
  from Cons.prems(2) [of x s1] Cons.prems(1)
  obtain s' where fx: "f x s1 = (g x, s')" and u1: "unchanged s1 s'" by auto
  have u: "unchanged s s'" using Cons.prems(1) u1 by (rule unchanged_trans)
  have "\<exists>s2. traverse_st f xs s' = (traverse g xs, s2) \<and> unchanged s' s2"
    using u Cons.prems(2) by (intro Cons.IH) simp_all
  then obtain s2 where t: "traverse_st f xs s' = (traverse g xs, s2)" and u2: "unchanged s' s2"
    by auto
  have u3: "unchanged s1 s2" using u1 u2 by (rule unchanged_trans)
  show ?case
  proof (cases "g x")
    case (Inl e)
    then show ?thesis using fx u1 by simp
  next
    case (Inr y)
    then show ?thesis using fx t u3 by (cases "traverse g xs") simp_all
  qed
qed

lemma bind_st_simps [simp]:
  "act s = (Inl e, s') \<Longrightarrow> bind_st act f s = (Inl e, s')"
  "act s = (Inr x, s') \<Longrightarrow> bind_st act f s = f x s'"
  by (simp_all add: bind_st_def)

lemma read_simp [simp]: "read f s = (f s, s)"
  by (simp add: read_def)

text \<open>One element of a column of the product: the row is a new Vector, nothing else changes.\<close>

lemma mul_st_entry:
  assumes u: "unchanged s s'" and o: "other < length (vectors s)"
    and c: "\<forall>c\<in>set (matrices s ! self). c < length (vectors s)"
  shows "\<exists>s''. bind_st (read (\<lambda>s. row_vector (columns s self) i)) (\<lambda>row.
           bind_st (new_Vector row) (\<lambda>row_ref. scalar_prod_st row_ref other)) s'
         = (bind_res (row_vector (columns s self) i) (\<lambda>row. scalar_prod row (Vector (vectors s ! other))), s'')
       \<and> unchanged s' s''"
proof (cases "row_vector (columns s self) i")
  case (Inl e)
  then have "read (\<lambda>s. row_vector (columns s self) i) s' = (Inl e, s')"
    using unchanged_columns [OF u c] by simp
  then show ?thesis using Inl by simp
next
  case (Inr row)
  then have r: "read (\<lambda>s. row_vector (columns s self) i) s' = (Inr row, s')"
    using unchanged_columns [OF u c] by simp
  from new_Vector_fresh [of row s'] obtain s'' where
    n: "new_Vector row s' = (Inr (length (vectors s')), s'')" and u': "unchanged s' s''"
    and l: "length (vectors s'') = Suc (length (vectors s'))"
    and v: "vectors s'' ! length (vectors s') = row"
    by auto
  have "unchanged s s''" using u u' by (rule unchanged_trans)
  then have ov: "vectors s'' ! other = vectors s ! other" using o by (rule unchanged_nth)
  have "scalar_prod_st (length (vectors s')) other s''
      = (scalar_prod row (Vector (vectors s ! other)), s'')"
    by (simp add: scalar_prod_st_def v ov)
  then show ?thesis using Inr r n u' by simp
qed

lemma mul_st_spec:
  assumes o: "other < length (vectors s)"
    and c: "\<forall>c\<in>set (matrices s ! self). c < length (vectors s)"
  shows "fresh_result s
     (bind_res (ensure_multiplicable (columns s self) (Vector (vectors s ! other)))
        (\<lambda>_. mul_column (columns s self) (vectors s ! other)))
     (mul_st self other s)"
proof (cases "ensure_multiplicable (columns s self) (Vector (vectors s ! other))")
  case (Inl e)
  then show ?thesis by (simp add: mul_st_def fresh_result_def)
next
  case g: (Inr u)
  show ?thesis
  proof (cases "rows (columns s self)")
    case (Inl e)
    then show ?thesis using g by (simp add: mul_st_def fresh_result_def mul_column_def)
  next
    case (Inr r)
    let ?g = "\<lambda>i. bind_res (row_vector (columns s self) i)
                 (\<lambda>row. scalar_prod row (Vector (vectors s ! other)))"
    let ?f = "\<lambda>i. bind_st (read (\<lambda>s. row_vector (columns s self) i)) (\<lambda>row.
                 bind_st (new_Vector row) (\<lambda>row_ref. scalar_prod_st row_ref other))"
    have "\<exists>s2. traverse_st ?f [0..<r] s = (traverse ?g [0..<r], s2) \<and> unchanged s s2"
      by (rule traverse_st_reads [where s = s]) (simp_all add: mul_st_entry [OF _ o c])
    then obtain s2 where t: "traverse_st ?f [0..<r] s = (traverse ?g [0..<r], s2)"
      and u2: "unchanged s s2" by auto
    have pure: "bind_res (ensure_multiplicable (columns s self) (Vector (vectors s ! other)))
        (\<lambda>_. mul_column (columns s self) (vectors s ! other)) = traverse ?g [0..<r]"
      using g Inr by (simp add: mul_column_def)
    have m: "mul_st self other s = bind_st (traverse_st ?f [0..<r]) new_Vector s"
      using g Inr by (simp add: mul_st_def)
    show ?thesis
    proof (cases "traverse ?g [0..<r]")
      case (Inl e)
      then show ?thesis using t u2 by (simp add: m pure fresh_result_def)
    next
      case (Inr xs)
      from new_Vector_fresh [of xs s2] obtain s3 where
        n: "new_Vector xs s2 = (Inr (length (vectors s2)), s3)" and u3: "unchanged s2 s3"
        and l: "length (vectors s3) = Suc (length (vectors s2))"
        and v: "vectors s3 ! length (vectors s2) = xs"
        by auto
      have "unchanged s s3" using u2 u3 by (rule unchanged_trans)
      moreover have "length (vectors s) \<le> length (vectors s2)" using u2 by (rule unchanged_length)
      moreover have "mul_st self other s = (Inr (length (vectors s2)), s3)"
        using t Inr n by (simp add: m)
      ultimately show ?thesis using l v Inr by (simp add: pure fresh_result_def)
    qed
  qed
qed

lemma add_st_spec:
  "fresh_result s (add (vectors s ! self) (Vector (vectors s ! other))) (add_st self other s)"
proof (cases "add (vectors s ! self) (Vector (vectors s ! other))")
  case (Inl e)
  then show ?thesis by (simp add: add_st_def fresh_result_def)
next
  case (Inr xs)
  from new_Vector_fresh [of xs s] obtain s' where
    "new_Vector xs s = (Inr (length (vectors s)), s')" "unchanged s s'"
    "length (vectors s') = Suc (length (vectors s))" "vectors s' ! length (vectors s) = xs"
    by auto
  then show ?thesis using Inr by (simp add: add_st_def fresh_result_def)
qed

lemma convert_mul_column:
  "convert v m dv =
     bind_res (bind_res (ensure_multiplicable m (Vector v)) (\<lambda>_. mul_column m v))
       (\<lambda>w. add w (Vector dv))"
  by (cases "ensure_multiplicable m (Vector v)"; cases "mul_column m v")
     (simp_all add: convert_def mul_def)

lemma convert_st_spec:
  assumes v: "v < length (vectors s)" and dv: "dv < length (vectors s)"
    and c: "\<forall>c\<in>set (matrices s ! m). c < length (vectors s)"
  shows "fresh_result s (convert (vectors s ! v) (columns s m) (vectors s ! dv)) (convert_st v m dv s)"
proof -
  let ?p = "bind_res (ensure_multiplicable (columns s m) (Vector (vectors s ! v)))
        (\<lambda>_. mul_column (columns s m) (vectors s ! v))"
  obtain res s2 where ms: "mul_st m v s = (res, s2)" by (cases "mul_st m v s")
  have f: "fresh_result s ?p (res, s2)" using mul_st_spec [OF v c] ms by simp
  then have u2: "unchanged s s2" by (simp add: fresh_result_def)
  show ?thesis
  proof (cases res)
    case (Inl e)
    then have "?p = Inl e" using f by (simp add: fresh_result_def)
    then show ?thesis using ms Inl u2
      by (simp add: convert_st_def convert_mul_column fresh_result_def)
  next
    case (Inr w)
    then have w: "?p = Inr (vectors s2 ! w)" using f by (simp add: fresh_result_def)
    have d2: "vectors s2 ! dv = vectors s ! dv" using u2 dv by (rule unchanged_nth)
    obtain res' s3 where as: "add_st w dv s2 = (res', s3)" by (cases "add_st w dv s2")
    have f': "fresh_result s2 (add (vectors s2 ! w) (Vector (vectors s ! dv))) (res', s3)"
      using add_st_spec [of s2 w dv] as d2 by simp
    then have u3: "unchanged s2 s3" by (simp add: fresh_result_def)
    have u: "unchanged s s3" using u2 u3 by (rule unchanged_trans)
    have le: "length (vectors s) \<le> length (vectors s2)" using u2 by (rule unchanged_length)
    have cs: "convert_st v m dv s = (res', s3)" using ms Inr as by (simp add: convert_st_def)
    have cp: "convert (vectors s ! v) (columns s m) (vectors s ! dv)
        = add (vectors s2 ! w) (Vector (vectors s ! dv))"
      by (simp add: convert_mul_column w)
    show ?thesis using f' u le by (cases res') (simp_all add: cs cp fresh_result_def)
  qed
qed

text \<open>
  C10. \<open>convert(v, m, dv)\<close>, called on a Vector \<open>v\<close>, a Matrix \<open>m\<close> whose columns are Vectors
  of the store, and a Vector \<open>dv\<close>, which may share objects in any way: every object that
  was in the store is still there with its contents, in particular \<open>v\<close>, \<open>dv\<close>, \<open>m\<close> and
  every column of \<open>m\<close>; when the call returns, the result is a Vector at an address that
  was not in use before the call, holding \<open>m * v + dv\<close>; when it raises, it raises what
  \<open>m * v + dv\<close> raises on the values.
\<close>

theorem convert_leaves_arguments:
  assumes v: "v < length (vectors s)" and dv: "dv < length (vectors s)"
    and m: "m < length (matrices s)"
    and c: "\<forall>c\<in>set (matrices s ! m). c < length (vectors s)"
  shows "\<exists>res s'. convert_st v m dv s = (res, s')
    \<and> matrices s' = matrices s
    \<and> take (length (vectors s)) (vectors s') = vectors s
    \<and> vectors s' ! v = vectors s ! v
    \<and> vectors s' ! dv = vectors s ! dv
    \<and> (\<forall>c\<in>set (matrices s' ! m). vectors s' ! c = vectors s ! c)
    \<and> (case res of
          Inl e \<Rightarrow> convert (vectors s ! v) (columns s m) (vectors s ! dv) = Inl e
        | Inr r \<Rightarrow> length (vectors s) \<le> r \<and> r < length (vectors s')
            \<and> convert (vectors s ! v) (columns s m) (vectors s ! dv) = Inr (vectors s' ! r))"
proof -
  obtain res s' where cs: "convert_st v m dv s = (res, s')" by (cases "convert_st v m dv s")
  with convert_st_spec [OF v dv c] have f:
    "fresh_result s (convert (vectors s ! v) (columns s m) (vectors s ! dv)) (res, s')" by simp
  then have u: "unchanged s s'" by (simp add: fresh_result_def)
  then have m': "matrices s' = matrices s" and t: "take (length (vectors s)) (vectors s') = vectors s"
    by (simp_all add: unchanged_def)
  have "vectors s' ! v = vectors s ! v" "vectors s' ! dv = vectors s ! dv"
    using u v dv by (simp_all add: unchanged_nth)
  moreover have "\<forall>c\<in>set (matrices s' ! m). vectors s' ! c = vectors s ! c"
    using u c m' by (simp add: unchanged_nth)
  ultimately show ?thesis using cs m' t f by (simp add: fresh_result_def)
qed

theorem convert_leaves_arguments_witness:
  "0 < length (vectors \<lparr>vectors = [[1, 2], [0, 1 :: int]], matrices = [[0, 1]]\<rparr>)
   \<and> 0 < length (matrices \<lparr>vectors = [[1, 2], [0, 1 :: int]], matrices = [[0, 1]]\<rparr>)
   \<and> matrices \<lparr>vectors = [[1, 2], [0, 1 :: int]], matrices = [[0, 1]]\<rparr> ! 0 = [0, 1]
   \<and> 1 < length (vectors \<lparr>vectors = [[1, 2], [0, 1 :: int]], matrices = [[0, 1]]\<rparr>)
   \<and> convert_st 0 0 0 \<lparr>vectors = [[1, 2], [0, 1 :: int]], matrices = [[0, 1]]\<rparr>
     = (Inr 5, \<lparr>vectors = [[1, 2], [0, 1], [1, 0], [2, 1], [1, 4], [2, 6]], matrices = [[0, 1]]\<rparr>)
   \<and> convert [1, 2] [[1, 2], [0, 1]] [1, 2 :: int] = Inr [2, 6]"
proof -
  let ?s = "\<lparr>vectors = [[1, 2], [0, 1 :: int]], matrices = [[0, 1]]\<rparr>"
  have a: "0 < length (vectors ?s)" by simp
  have b: "0 < length (matrices ?s)" by simp
  have c: "\<forall>c\<in>set (matrices ?s ! 0). c < length (vectors ?s)" by simp
  have e: "convert_st 0 0 0 ?s
     = (Inr 5, \<lparr>vectors = [[1, 2], [0, 1], [1, 0], [2, 1], [1, 4], [2, 6]], matrices = [[0, 1]]\<rparr>)"
    by code_simp
  from convert_leaves_arguments [OF a a b c] e
  have "convert (vectors ?s ! 0) (columns ?s 0) (vectors ?s ! 0) = Inr [2, 6]"
    by simp
  then show ?thesis using e by (simp add: columns_def)
qed

text \<open>
  The store does record a write where the program makes one: \<open>a += b\<close> changes the object
  at the address of \<open>a\<close> and returns that address.
\<close>

lemma iadd_st_writes:
  "iadd_st 0 1 \<lparr>vectors = [[1, 2], [10, 20 :: int]], matrices = []\<rparr>
     = (Inr 0, \<lparr>vectors = [[11, 22], [10, 20]], matrices = []\<rparr>)"
  by (simp add: iadd_st_def ensure_compatibility_def bind_st_def read_def upt_rec)

end
